theory Spec2Isabelle
  imports Main "HOL-Library.Word"
begin

unbundle bit_operations_syntax

text \<open>
  A shallow embedding of the SOCKS5 proxy of \<open>routing-socks\<close>: the handshake with the
  client, the parsing of the CONNECT request, the choice of the address to dial, the
  exchange with an upstream proxy and the reply to the client. Connections are explicit
  state, errors and panics are values, and the resolver and the dialler are parameters.
\<close>

section \<open>Data model\<close>

type_synonym byte = "8 word"
type_synonym uint16 = "16 word"

text \<open>
  The struct \<open>Addr\<close> of the proxy: address type (0x01 IPv4, 0x03 domain, 0x04 IPv6), the
  address bytes and the port. The field \<open>Addr\<close> of the Go struct is called \<open>AddrBytes\<close>
  here, since the record already carries the name \<open>Addr\<close>.
\<close>

record Addr =
  Atyp :: byte
  AddrBytes :: "byte list"
  Port :: uint16

text \<open>
  Go errors as values. \<open>Errorf s\<close> is the error built by \<open>fmt.Errorf\<close> with the message
  \<open>s\<close>; \<open>EOF\<close> and \<open>ErrUnexpectedEOF\<close> are the two errors of package \<open>io\<close> that a
  read on an exhausted stream gives; \<open>NetError\<close> stands for an error reported by the
  operating system on \<open>Dial\<close> or \<open>Write\<close>.
\<close>

datatype error = EOF | ErrUnexpectedEOF | Errorf string | NetError

text \<open>
  A Go call either returns or panics (a run-time panic of an index or slice expression).
\<close>

datatype 'a go = Panics | Returns 'a

section \<open>Connections\<close>

text \<open>
  One end of a TCP connection (\<open>net.Conn\<close>), as explicit state.
  \<^item> \<open>rx\<close>: the bytes the peer sends before it closes its side, not yet read;
  \<^item> \<open>seg\<close>: how many bytes at most the next single \<open>Read\<close> call delivers (the
    segmentation of the stream, which the reader does not control);
  \<^item> \<open>tx\<close>: the buffers handed to \<open>Write\<close> so far, oldest first;
  \<^item> \<open>wr_ok\<close>: the outcome of the coming \<open>Write\<close> calls, in order (\<open>False\<close>: the
    call returns an error); once the list is used up every \<open>Write\<close> succeeds;
  \<^item> \<open>closed\<close>: whether \<open>Close\<close> has been called.
\<close>

record conn =
  rx :: "byte list"
  seg :: nat
  tx :: "byte list list"
  wr_ok :: "bool list"
  closed :: bool

text \<open>
  \<open>conn.Read(buf)\<close>: one read into \<open>buf\<close>; gives the count, the buffer and the error.
  The bytes of \<open>buf\<close> beyond the count stay as they were. On a stream that has ended
  the read gives \<open>EOF\<close>.
\<close>

definition conn_Read :: "conn \<Rightarrow> byte list \<Rightarrow> (nat \<times> byte list \<times> error option) \<times> conn" where
  "conn_Read c buf =
     (if rx c = [] then ((0, buf, Some EOF), c)
      else let n = min (seg c) (min (length buf) (length (rx c)))
           in ((n, take n (rx c) @ drop n buf, None), c\<lparr>rx := drop n (rx c)\<rparr>))"

text \<open>
  \<open>io.ReadFull(conn, buf)\<close> with \<open>len(buf) = n\<close>: exactly \<open>n\<close> bytes, or \<open>EOF\<close> when
  the stream ends before the first byte, or \<open>ErrUnexpectedEOF\<close> when it ends after some
  but not all of them. A buffer of length 0 is filled without reading.
\<close>

definition ReadFull :: "conn \<Rightarrow> nat \<Rightarrow> (error + byte list) \<times> conn" where
  "ReadFull c n =
     (if n \<le> length (rx c) then (Inr (take n (rx c)), c\<lparr>rx := drop n (rx c)\<rparr>)
      else if rx c = [] then (Inl EOF, c)
      else (Inl ErrUnexpectedEOF, c\<lparr>rx := []\<rparr>))"

text \<open>\<open>conn.Write(buf)\<close>: the error (if any) and the connection afterwards.\<close>

definition conn_Write :: "conn \<Rightarrow> byte list \<Rightarrow> error option \<times> conn" where
  "conn_Write c buf =
     (case wr_ok c of
        [] \<Rightarrow> (None, c\<lparr>tx := tx c @ [buf]\<rparr>)
      | ok # rest \<Rightarrow>
          (if ok then None else Some NetError, c\<lparr>tx := tx c @ [buf], wr_ok := rest\<rparr>))"

definition conn_Close :: "conn \<Rightarrow> conn" where
  "conn_Close c = c\<lparr>closed := True\<rparr>"

section \<open>Library functions the proxy calls\<close>

text \<open>
  The slice expression \<open>a[lo:hi]\<close> of Go on a slice of capacity \<open>length a\<close>: it panics
  unless \<open>0 \<le> lo \<le> hi \<le> cap(a)\<close>.
\<close>

definition slice :: "'a list \<Rightarrow> nat \<Rightarrow> nat \<Rightarrow> 'a list option" where
  "slice a lo hi = (if lo \<le> hi \<and> hi \<le> length a then Some (take (hi - lo) (drop lo a)) else None)"

text \<open>\<open>bytes.Contains(b, sub)\<close>: whether \<open>sub\<close> occurs in \<open>b\<close> as a contiguous run.\<close>

fun bytes_Contains :: "byte list \<Rightarrow> byte list \<Rightarrow> bool" where
  "bytes_Contains [] sub = (sub = [])"
| "bytes_Contains (x # xs) sub = (take (length sub) (x # xs) = sub \<or> bytes_Contains xs sub)"

section \<open>Server-role handshake\<close>

text \<open>
  \<open>handleHandshake\<close>: one read into a fresh buffer of 256 zero bytes; the second byte is
  the method count. The upper bound of the slice is \<open>2+buf[1]\<close>, an expression of type
  \<open>byte\<close>, so the sum is taken modulo 256 before it is used as an index. The operator
  \<open>||\<close> evaluates its right operand only when the left one is false; here and below it
  is written as two tests in that order.
\<close>

definition handleHandshake :: "conn \<Rightarrow> error option go \<times> conn" where
  "handleHandshake conn0 =
     (case conn_Read conn0 (replicate 256 0) of
        ((n, buf, Some err), conn) \<Rightarrow> (Returns (Some err), conn)
      | ((n, buf, None), conn) \<Rightarrow>
          if n < 2 then (Returns (Some (Errorf ''invalid version'')), conn)
          else if buf ! 0 \<noteq> 5 then (Returns (Some (Errorf ''invalid version'')), conn)
          else
            (case slice buf 2 (unat (2 + buf ! 1)) of
               None \<Rightarrow> (Panics, conn)
             | Some methods \<Rightarrow>
                 if \<not> bytes_Contains methods [0]
                 then (Returns (Some (Errorf ''no supported auth method'')), conn)
                 else (case conn_Write conn [5, 0] of (err, conn') \<Rightarrow> (Returns err, conn'))))"

section \<open>Request parsing and encoding\<close>

text \<open>\<open>binary.BigEndian.Uint16\<close> and \<open>binary.BigEndian.PutUint16\<close> on a 2-byte buffer.\<close>

definition Uint16 :: "byte list \<Rightarrow> uint16" where
  "Uint16 b = ucast (b ! 1) OR push_bit 8 (ucast (b ! 0))"

definition PutUint16 :: "uint16 \<Rightarrow> byte list" where
  "PutUint16 v = [ucast (drop_bit 8 v), ucast v]"

text \<open>
  The \<open>switch atyp\<close> of \<open>readAddr\<close> with the error check that follows it: the address
  bytes for the three address types, an error for any other type.
\<close>

definition readAddrBody :: "byte \<Rightarrow> conn \<Rightarrow> (error + byte list) \<times> conn" where
  "readAddrBody atyp conn =
     (if atyp = 1 then ReadFull conn 4
      else if atyp = 3 then
        (case ReadFull conn 1 of
           (Inl err, conn') \<Rightarrow> (Inl err, conn')
         | (Inr lenByte, conn') \<Rightarrow> ReadFull conn' (unat (lenByte ! 0)))
      else if atyp = 4 then ReadFull conn 16
      else (Inl (Errorf ''unsupported address type''), conn))"

text \<open>\<open>readAddr\<close>: the 4-byte request header, the address and the port.\<close>

definition readAddr :: "conn \<Rightarrow> (error + Addr) \<times> conn" where
  "readAddr conn0 =
     (case ReadFull conn0 4 of
        (Inl err, conn) \<Rightarrow> (Inl err, conn)
      | (Inr header, conn) \<Rightarrow>
          if header ! 0 \<noteq> 5 then (Inl (Errorf ''invalid request''), conn)
          else if header ! 1 \<noteq> 1 then (Inl (Errorf ''invalid request''), conn)
          else
            (case readAddrBody (header ! 3) conn of
               (Inl err, conn1) \<Rightarrow> (Inl err, conn1)
             | (Inr addr, conn1) \<Rightarrow>
                 (case ReadFull conn1 2 of
                    (Inl err, conn2) \<Rightarrow> (Inl err, conn2)
                  | (Inr portBuf, conn2) \<Rightarrow>
                      (Inr \<lparr>Atyp = header ! 3, AddrBytes = addr, Port = Uint16 portBuf\<rparr>, conn2))))"

text \<open>
  The CONNECT request that \<open>dialThroughSocks\<close> builds for the upstream proxy (the three
  statements that fill \<open>req\<close>).
\<close>

definition connect_request :: "Addr \<Rightarrow> byte list" where
  "connect_request dest = [5, 1, 0, Atyp dest] @ AddrBytes dest @ PutUint16 (Port dest)"

text \<open>\<open>writeReply\<close>: one \<open>Write\<close> of the reply with the given status byte.\<close>

definition writeReply :: "conn \<Rightarrow> byte \<Rightarrow> error option \<times> conn" where
  "writeReply conn rep = conn_Write conn [5, rep, 0, 1, 0, 0, 0, 0, 0, 0]"

section \<open>Formatting of addresses\<close>

text \<open>
  Go strings that hold text (host names given on the command line, dial addresses) are
  \<open>string\<close>; the string \<open>string(destAddr.Addr)\<close>, made of raw address bytes, is kept as
  the byte list it is.
\<close>

type_synonym IP = "byte list"

text \<open>Decimal digits of a number, as \<open>fmt.Sprint\<close> and the verb \<open>%d\<close> print it.\<close>

fun Itoa :: "nat \<Rightarrow> string" where
  "Itoa n = (if n < 10 then [''0123456789'' ! n]
             else Itoa (n div 10) @ [''0123456789'' ! (n mod 10)])"

declare Itoa.simps [simp del]

text \<open>
  \<open>net.JoinHostPort\<close>: a host that contains a colon is taken for a literal IPv6 address
  and put in brackets.
\<close>

definition JoinHostPort :: "string \<Rightarrow> string \<Rightarrow> string" where
  "JoinHostPort host port =
     (if CHR '':'' \<in> set host then ''['' @ host @ '']:'' @ port else host @ '':'' @ port)"

text \<open>
  \<open>IP.To4\<close>: a 4-byte address as it is, a 16-byte address with the IPv4-in-IPv6 prefix
  (ten zero bytes, then twice 0xff) as its last four bytes, \<open>nil\<close> otherwise.
\<close>

definition To4 :: "IP \<Rightarrow> IP option" where
  "To4 ip =
     (if length ip = 4 then Some ip
      else if length ip = 16 \<and> take 10 ip = replicate 10 0 \<and> ip ! 10 = 255 \<and> ip ! 11 = 255
      then Some (drop 12 ip)
      else None)"

definition hexString :: "byte list \<Rightarrow> string" where
  "hexString b =
     concat (map (\<lambda>x. [''0123456789abcdef'' ! unat (drop_bit 4 x),
                        ''0123456789abcdef'' ! unat (x AND 15)]) b)"

text \<open>
  \<open>IP.String\<close>, as the documentation of package \<open>net\<close> gives it: \<open><nil>\<close> for an address
  of length 0, dotted decimal for an IPv4 or IPv4-mapped address, \<open>?\<close> and the hexadecimal
  digits for a length other than 4 and 16. The text of a proper IPv6 address is left to
  the parameter \<open>string16\<close>.
\<close>

definition IP_String :: "(IP \<Rightarrow> string) \<Rightarrow> IP \<Rightarrow> string" where
  "IP_String string16 ip =
     (if length ip = 0 then ''<nil>''
      else if length ip \<noteq> 4 \<and> length ip \<noteq> 16 then ''?'' @ hexString ip
      else (case To4 ip of
              Some p4 \<Rightarrow> Itoa (unat (p4 ! 0)) @ ''.'' @ Itoa (unat (p4 ! 1)) @ ''.'' @
                         Itoa (unat (p4 ! 2)) @ ''.'' @ Itoa (unat (p4 ! 3))
            | None \<Rightarrow> string16 ip))"

section \<open>The network around the proxy\<close>

text \<open>
  What the proxy asks of its environment: the resolver (\<open>net.LookupIP\<close>, on the bytes of
  the host string; it gives the addresses and the error), \<open>net.Dial\<close> for the network
  \<open>tcp\<close> (an error or a fresh connection) and the text of IPv6 addresses.
\<close>

record net =
  LookupIP :: "byte list \<Rightarrow> IP list \<times> error option"
  Dial :: "string \<Rightarrow> error + conn"
  String16 :: "IP \<Rightarrow> string"

section \<open>Chaining through an upstream proxy\<close>

text \<open>
  The \<open>switch atyp\<close> of \<open>dialThroughSocks\<close>: the length of the bound address in the
  upstream's reply; for a domain name the length byte is read here.
\<close>

definition replyAddrLen :: "byte \<Rightarrow> conn \<Rightarrow> (error + nat) \<times> conn" where
  "replyAddrLen atyp conn =
     (if atyp = 1 then (Inr 4, conn)
      else if atyp = 3 then
        (case ReadFull conn 1 of
           (Inl err, conn') \<Rightarrow> (Inl err, conn')
         | (Inr lenByte, conn') \<Rightarrow> (Inr (unat (lenByte ! 0)), conn'))
      else if atyp = 4 then (Inr 16, conn)
      else (Inl (Errorf ''unsupported address type in reply''), conn))"

text \<open>
  \<open>dialThroughSocks\<close>. The first component is what the function returns: \<open>Inl err\<close> for
  \<open>(nil, err)\<close>, \<open>Inr ()\<close> for \<open>(conn, nil)\<close>. The second component is the socket that
  \<open>net.Dial\<close> opened, in the state the function leaves it in (\<open>None\<close> when \<open>Dial\<close>
  failed); on \<open>Inr ()\<close> it is the connection handed to the caller.
\<close>

definition dialThroughSocks :: "net \<Rightarrow> string \<Rightarrow> Addr \<Rightarrow> (error + unit) \<times> conn option" where
  "dialThroughSocks env upstream dest =
     (case Dial env upstream of
        Inl err \<Rightarrow> (Inl err, None)
      | Inr conn \<Rightarrow>
     (case conn_Write conn [5, 1, 0] of
        (Some err, conn1) \<Rightarrow> (Inl err, Some (conn_Close conn1))
      | (None, conn1) \<Rightarrow>
     (case ReadFull conn1 2 of
        (Inl err, conn2) \<Rightarrow> (Inl err, Some (conn_Close conn2))
      | (Inr resp, conn2) \<Rightarrow>
     if resp ! 0 \<noteq> 5 then (Inl (Errorf ''upstream auth failed''), Some (conn_Close conn2))
     else if resp ! 1 \<noteq> 0 then (Inl (Errorf ''upstream auth failed''), Some (conn_Close conn2))
     else
     (case conn_Write conn2 (connect_request dest) of
        (Some err, conn3) \<Rightarrow> (Inl err, Some (conn_Close conn3))
      | (None, conn3) \<Rightarrow>
     (case ReadFull conn3 4 of
        (Inl err, conn4) \<Rightarrow> (Inl err, Some (conn_Close conn4))
      | (Inr reply, conn4) \<Rightarrow>
     if reply ! 1 \<noteq> 0
     then (Inl (Errorf (''upstream request failed: '' @ Itoa (unat (reply ! 1)))),
           Some (conn_Close conn4))
     else
     (case replyAddrLen (reply ! 3) conn4 of
        (Inl err, conn5) \<Rightarrow> (Inl err, Some (conn_Close conn5))
      | (Inr addrLen, conn5) \<Rightarrow>
     (case ReadFull conn5 (addrLen + 2) of
        (Inl err, conn6) \<Rightarrow> (Inl err, Some (conn_Close conn6))
      | (Inr addrBuf, conn6) \<Rightarrow> (Inr (), Some conn6))))))))"

section \<open>One client session\<close>

text \<open>
  The loop of \<open>handleClient\<close> over the resolved addresses, with \<open>ipToUse\<close> as it stands
  before the loop: the text of the first address for which \<open>To4\<close> is not \<open>nil\<close>.
\<close>

fun firstV4 :: "(IP \<Rightarrow> string) \<Rightarrow> IP list \<Rightarrow> string \<Rightarrow> string" where
  "firstV4 string16 [] ipToUse = ipToUse"
| "firstV4 string16 (ip # ips) ipToUse =
     (if To4 ip \<noteq> None then IP_String string16 ip else firstV4 string16 ips ipToUse)"

text \<open>What \<open>ipToUse\<close> holds after the loop and the fallback to the first address.\<close>

definition chooseIP :: "(IP \<Rightarrow> string) \<Rightarrow> IP list \<Rightarrow> string" where
  "chooseIP string16 ipsToCheck =
     (let ipToUse = firstV4 string16 ipsToCheck []
      in if ipToUse = [] \<and> 0 < length ipsToCheck
         then IP_String string16 (ipsToCheck ! 0) else ipToUse)"

text \<open>
  What a run of \<open>handleClient\<close> leaves behind: the client connection, the outbound
  socket if \<open>Dial\<close> opened one, the address given to \<open>net.Dial\<close> if the run got that far,
  whether the two \<open>io.Copy\<close> calls were started, and whether the run ended in a panic.
  The bytes that the relay itself moves are not part of the model.
\<close>

record session =
  client_end :: conn
  dest_end :: "conn option"
  dialled :: "string option"
  relayed :: bool
  panicked :: bool

definition handleClient :: "net \<Rightarrow> conn \<Rightarrow> string \<Rightarrow> session" where
  "handleClient env client0 upstream =
     (case handleHandshake client0 of
        (Panics, client) \<Rightarrow>
          \<lparr>client_end = conn_Close client, dest_end = None, dialled = None,
           relayed = False, panicked = True\<rparr>
      | (Returns (Some err), client) \<Rightarrow>
          \<lparr>client_end = conn_Close client, dest_end = None, dialled = None,
           relayed = False, panicked = False\<rparr>
      | (Returns None, client) \<Rightarrow>
     (case readAddr client of
        (Inl err, client1) \<Rightarrow>
          \<lparr>client_end = conn_Close client1, dest_end = None, dialled = None,
           relayed = False, panicked = False\<rparr>
      | (Inr destAddr, client1) \<Rightarrow>
     (let ipToUse = chooseIP (String16 env) (fst (LookupIP env (AddrBytes destAddr)));
          port = Port destAddr;
          addrStr = JoinHostPort ipToUse (Itoa (unat port));
          target = (if upstream \<noteq> [] then upstream else addrStr);
          (res, destConn) =
             (if upstream \<noteq> [] then dialThroughSocks env upstream destAddr
              else (case Dial env addrStr of
                      Inl err \<Rightarrow> (Inl err, None)
                    | Inr d \<Rightarrow> (Inr (), Some d)))
      in (case res of
            Inl err \<Rightarrow>
              \<lparr>client_end = conn_Close (snd (writeReply client1 5)), dest_end = destConn,
               dialled = Some target, relayed = False, panicked = False\<rparr>
          | Inr u \<Rightarrow>
         (case writeReply client1 0 of
            (Some err, client2) \<Rightarrow>
              \<lparr>client_end = conn_Close client2, dest_end = map_option conn_Close destConn,
               dialled = Some target, relayed = False, panicked = False\<rparr>
          | (None, client2) \<Rightarrow>
              \<lparr>client_end = conn_Close client2, dest_end = map_option conn_Close destConn,
               dialled = Some target, relayed = True, panicked = False\<rparr>)))))"

section \<open>Auxiliary facts\<close>

lemma bytes_Contains_single: "bytes_Contains xs [b] = (b \<in> set xs)"
  by (induction xs) auto

lemma conn_Read_whole:
  assumes "rx c \<noteq> []" and "length (rx c) \<le> seg c" and "length (rx c) \<le> length buf"
  shows "conn_Read c buf =
           ((length (rx c), rx c @ drop (length (rx c)) buf, None), c\<lparr>rx := []\<rparr>)"
  using assms by (simp add: conn_Read_def min_absorb2 Let_def)

lemma Uint16_PutUint16: "Uint16 (PutUint16 v) = v"
  unfolding Uint16_def PutUint16_def
  by (simp, rule bit_word_eqI) (auto simp add: bit_simps)

lemma unat_byte: "unat (b :: byte) < 256"
  using unsigned_less [of b, where 'a = nat] by simp

lemma unat_two_plus: "unat (2 + b :: byte) = (2 + unat b) mod 256"
  by (simp add: unat_word_ariths)

lemma two_bytes:
  "length (bs :: byte list) = 2 \<Longrightarrow> (bs = [x, y]) = (bs ! 0 = x \<and> bs ! 1 = y)"
  by (cases bs; cases "tl bs") auto

lemma ReadFull_append:
  "length xs = n \<Longrightarrow> ReadFull (c\<lparr>rx := xs @ ys\<rparr>) n = (Inr xs, c\<lparr>rx := ys\<rparr>)"
  by (simp add: ReadFull_def)

lemma ReadFull_Inr:
  "ReadFull c n = (Inr bs, c') \<Longrightarrow> length bs = n \<and> length (rx c) = n + length (rx c')"
  by (auto simp add: ReadFull_def split: if_splits)

lemma conn_Read_None:
  assumes "rx c \<noteq> []"
  shows "conn_Read c (replicate 256 0) =
     ((min (seg c) (min 256 (length (rx c))),
       take (min (seg c) (min 256 (length (rx c)))) (rx c) @
         replicate (256 - min (seg c) (min 256 (length (rx c)))) 0, None),
      c\<lparr>rx := drop (min (seg c) (min 256 (length (rx c)))) (rx c)\<rparr>)"
  using assms by (simp add: conn_Read_def Let_def)

lemma handshake_buf_nth:
  assumes "i < n" "n \<le> length xs"
  shows "(take n xs @ replicate (256 - n) (0::byte)) ! i = xs ! i"
  using assms by (simp add: nth_append)

lemma slice_methods_None_iff:
  assumes "length (buf :: byte list) = 256"
  shows "(slice buf 2 (unat (2 + buf ! 1)) = None) = (254 \<le> unat (buf ! 1))"
  using assms unat_byte [of "buf ! 1"] by (auto simp add: slice_def unat_two_plus mod_if)

section \<open>The server-role handshake\<close>

text \<open>
  Claim C8. When the single read delivers the message \<open>{0x05, 0x01, 0x00}\<close> and the write
  goes through, \<open>handleHandshake\<close> returns no error and the one buffer it writes is
  \<open>{0x05, 0x00}\<close>. When the message is \<open>{0x05, 0x01, 0x02}\<close> it returns the error
  \<open>no supported auth method\<close> and writes nothing: the connection is as before, but for
  the three bytes read.
\<close>

theorem handshake_examples:
  "handleHandshake (c\<lparr>rx := [5, 1, 0], seg := 3 + k, wr_ok := []\<rparr>) =
     (Returns None, c\<lparr>rx := [], seg := 3 + k, tx := tx c @ [[5, 0]], wr_ok := []\<rparr>) \<and>
   handleHandshake (c\<lparr>rx := [5, 1, 2], seg := 3 + k\<rparr>) =
     (Returns (Some (Errorf ''no supported auth method'')), c\<lparr>rx := [], seg := 3 + k\<rparr>)"
proof
  have r: "conn_Read (c\<lparr>rx := [5, 1, 0], seg := 3 + k, wr_ok := []\<rparr>) (replicate 256 0) =
      ((3, [5, 1, 0] @ replicate 253 0, None), c\<lparr>rx := [], seg := 3 + k, wr_ok := []\<rparr>)"
    using conn_Read_whole [of "c\<lparr>rx := [5, 1, 0], seg := 3 + k, wr_ok := []\<rparr>" "replicate 256 0"]
    by simp
  show "handleHandshake (c\<lparr>rx := [5, 1, 0], seg := 3 + k, wr_ok := []\<rparr>) =
     (Returns None, c\<lparr>rx := [], seg := 3 + k, tx := tx c @ [[5, 0]], wr_ok := []\<rparr>)"
    by (simp add: handleHandshake_def r slice_def conn_Write_def)
next
  have r: "conn_Read (c\<lparr>rx := [5, 1, 2], seg := 3 + k\<rparr>) (replicate 256 0) =
      ((3, [5, 1, 2] @ replicate 253 0, None), c\<lparr>rx := [], seg := 3 + k\<rparr>)"
    using conn_Read_whole [of "c\<lparr>rx := [5, 1, 2], seg := 3 + k\<rparr>" "replicate 256 0"]
    by simp
  show "handleHandshake (c\<lparr>rx := [5, 1, 2], seg := 3 + k\<rparr>) =
     (Returns (Some (Errorf ''no supported auth method'')), c\<lparr>rx := [], seg := 3 + k\<rparr>)"
    by (simp add: handleHandshake_def r slice_def)
qed

text \<open>
  Claim C3 asks that a message which announces more methods than it carries be refused.
  The function never compares the count read with the method count. On the two bytes
  \<open>{0x05, 0x01}\<close> the method list is \<open>buf[2:3]\<close>, a byte of the zeroed buffer that the
  client never sent; it reads as method 0x00, and the handshake succeeds with the
  response \<open>{0x05, 0x00}\<close>.
\<close>

theorem handshake_short_message_accepted:
  "handleHandshake \<lparr>rx = [5, 1], seg = 2, tx = [], wr_ok = [], closed = False\<rparr> =
     (Returns None, \<lparr>rx = [], seg = 2, tx = [[5, 0]], wr_ok = [], closed = False\<rparr>)"
  by (simp add: handleHandshake_def conn_Read_def slice_def conn_Write_def)

text \<open>
  Claim C10 asks that the slice \<open>buf[2 : 2+buf[1]]\<close> stay within bounds for every method
  count. The upper bound is computed in type \<open>byte\<close>: for the count 254 it is 0, below
  the lower bound 2, and the slice expression panics. The two bytes \<open>{0x05, 0xFE}\<close> are
  enough.
\<close>

theorem handshake_slice_panics:
  "handleHandshake \<lparr>rx = [5, 254], seg = 2, tx = [], wr_ok = [], closed = False\<rparr> =
     (Panics, \<lparr>rx = [], seg = 2, tx = [], wr_ok = [], closed = False\<rparr>)"
  by (simp add: handleHandshake_def conn_Read_def slice_def conn_Write_def)

text \<open>
  The two observations hold beyond the two inputs. With \<open>n\<close> the count that the read
  returns: the handshake panics exactly when the header is accepted and the method count
  is 254 or 255; and every accepted header that announces more methods than were read
  (and fewer than 254) gets as far as the response \<open>{0x05, 0x00}\<close>, because the byte at
  index \<open>n\<close> of the buffer is still zero.
\<close>

lemma handleHandshake_panics_iff:
  "(fst (handleHandshake c) = Panics) =
   (rx c \<noteq> [] \<and> 2 \<le> min (seg c) (min 256 (length (rx c))) \<and> rx c ! 0 = 5 \<and>
    254 \<le> unat (rx c ! 1))"
proof (cases "rx c = []")
  case True
  then show ?thesis by (simp add: handleHandshake_def conn_Read_def)
next
  case False
  define n where "n = min (seg c) (min 256 (length (rx c)))"
  define buf where "buf = take n (rx c) @ replicate (256 - n) (0::byte)"
  have r: "conn_Read c (replicate 256 0) = ((n, buf, None), c\<lparr>rx := drop n (rx c)\<rparr>)"
    using conn_Read_None [OF False] by (simp add: n_def buf_def)
  have len: "length buf = 256" by (simp add: buf_def n_def)
  show ?thesis
  proof (cases "2 \<le> n")
    case True
    moreover have "n \<le> length (rx c)" by (simp add: n_def)
    ultimately have "buf ! 0 = rx c ! 0" "buf ! 1 = rx c ! 1"
      unfolding buf_def by (simp_all add: handshake_buf_nth)
    with True False slice_methods_None_iff [OF len] show ?thesis
      by (auto simp add: handleHandshake_def r n_def [symmetric] split: option.splits prod.splits)
  next
    case False
    then show ?thesis
      by (simp add: handleHandshake_def r n_def [symmetric])
  qed
qed

lemma handleHandshake_truncated_accepted:
  assumes "rx c \<noteq> []" and n: "n = min (seg c) (min 256 (length (rx c)))"
    and "2 \<le> n" and "rx c ! 0 = 5" and "n < 2 + unat (rx c ! 1)" and "unat (rx c ! 1) \<le> 253"
  shows "handleHandshake c = (Returns (fst (conn_Write (c\<lparr>rx := drop n (rx c)\<rparr>) [5, 0])),
                              snd (conn_Write (c\<lparr>rx := drop n (rx c)\<rparr>) [5, 0]))"
proof -
  define buf where "buf = take n (rx c) @ replicate (256 - n) (0::byte)"
  have r: "conn_Read c (replicate 256 0) = ((n, buf, None), c\<lparr>rx := drop n (rx c)\<rparr>)"
    using conn_Read_None [OF assms(1)] by (simp add: n buf_def)
  have len: "length buf = 256" by (simp add: buf_def n)
  have nle: "n \<le> length (rx c)" by (simp add: n)
  have b: "buf ! 0 = 5" "buf ! 1 = rx c ! 1"
    using assms(3,4) nle unfolding buf_def by (simp_all add: handshake_buf_nth)
  have z: "buf ! n = 0"
    using assms(5,6) nle unfolding buf_def by (simp add: nth_append)
  have s: "slice buf 2 (unat (2 + rx c ! 1)) = Some (take (unat (rx c ! 1)) (drop 2 buf))"
    using assms(6) len by (simp add: slice_def unat_two_plus)
  have "2 + (n - 2) = n"
    using assms(3) by simp
  then have "take (unat (rx c ! 1)) (drop 2 buf) ! (n - 2) = buf ! n"
    using assms(3,5,6) len by (simp del: add_2_eq_Suc add_2_eq_Suc')
  moreover have "n - 2 < length (take (unat (rx c ! 1)) (drop 2 buf))"
    using assms(3,5,6) len by simp
  ultimately have "0 \<in> set (take (unat (rx c ! 1)) (drop 2 buf))"
    using z by (metis nth_mem)
  then show ?thesis
    using assms(3) b
    by (simp add: handleHandshake_def r s [unfolded One_nat_def] bytes_Contains_single
             split: prod.splits)
qed

section \<open>Requests and replies\<close>

text \<open>
  Claim C7. For every status byte and every connection, \<open>writeReply\<close> hands exactly one
  buffer to \<open>Write\<close>: the 10 bytes \<open>{0x05, status, 0x00, 0x01, 0,0,0,0, 0,0}\<close>, whose bound
  address is 0.0.0.0:0.
\<close>

theorem writeReply_bytes:
  "tx (snd (writeReply c rep)) = tx c @ [[5, rep, 0, 1, 0, 0, 0, 0, 0, 0]] \<and>
   length (last (tx (snd (writeReply c rep)))) = 10"
  by (simp add: writeReply_def conn_Write_def split: list.splits)

text \<open>
  Claim C6. Once the 4 header bytes are there, \<open>readAddr\<close> refuses the request with the
  error \<open>invalid request\<close> unless the version byte is 5 and the command byte is 1, and
  it has then taken exactly those 4 bytes from the stream; a request that is accepted
  has version 5 and command 1. The request
  \<open>{0x05, 0x01, 0x00, 0x01, 93,184,216,34, 0x00,0x50}\<close> gives the IPv4 address
  93.184.216.34 with port 80; with the command byte 0x02 it is refused.
\<close>

theorem readAddr_header:
  "(4 \<le> length (rx c) \<and> \<not> (rx c ! 0 = 5 \<and> rx c ! 1 = 1) \<longrightarrow>
      readAddr c = (Inl (Errorf ''invalid request''), c\<lparr>rx := drop 4 (rx c)\<rparr>)) \<and>
   (fst (readAddr c) = Inr a \<longrightarrow>
      4 \<le> length (rx c) \<and> rx c ! 0 = 5 \<and> rx c ! 1 = 1 \<and> Atyp a = rx c ! 3) \<and>
   readAddr (c\<lparr>rx := [5, 1, 0, 1, 93, 184, 216, 34, 0, 80]\<rparr>) =
     (Inr \<lparr>Atyp = 1, AddrBytes = [93, 184, 216, 34], Port = 80\<rparr>, c\<lparr>rx := []\<rparr>) \<and>
   readAddr (c\<lparr>rx := [5, 2, 0, 1, 93, 184, 216, 34, 0, 80]\<rparr>) =
     (Inl (Errorf ''invalid request''), c\<lparr>rx := [93, 184, 216, 34, 0, 80]\<rparr>)"
proof (intro conjI impI)
  assume "4 \<le> length (rx c) \<and> \<not> (rx c ! 0 = 5 \<and> rx c ! 1 = 1)"
  then show "readAddr c = (Inl (Errorf ''invalid request''), c\<lparr>rx := drop 4 (rx c)\<rparr>)"
    by (auto simp add: readAddr_def ReadFull_def)
next
  assume ok: "fst (readAddr c) = Inr a"
  then show "4 \<le> length (rx c)"
    by (auto simp add: readAddr_def ReadFull_def split: if_splits)
  with ok show "rx c ! 0 = 5" "rx c ! 1 = 1" "Atyp a = rx c ! 3"
    by (auto simp add: readAddr_def ReadFull_def split: if_splits prod.splits sum.splits)
next
  show "readAddr (c\<lparr>rx := [5, 1, 0, 1, 93, 184, 216, 34, 0, 80]\<rparr>) =
     (Inr \<lparr>Atyp = 1, AddrBytes = [93, 184, 216, 34], Port = 80\<rparr>, c\<lparr>rx := []\<rparr>)"
    by (simp add: readAddr_def readAddrBody_def ReadFull_def Uint16_def)
  show "readAddr (c\<lparr>rx := [5, 2, 0, 1, 93, 184, 216, 34, 0, 80]\<rparr>) =
     (Inl (Errorf ''invalid request''), c\<lparr>rx := [93, 184, 216, 34, 0, 80]\<rparr>)"
    by (simp add: readAddr_def ReadFull_def)
qed

theorem readAddr_header_witness:
  "(4 \<le> length (rx \<lparr>rx = [4, 1, 0, 1, 9], seg = 0, tx = [], wr_ok = [], closed = False\<rparr>) \<and>
    \<not> (rx \<lparr>rx = [4, 1, 0, 1, 9], seg = 0, tx = [], wr_ok = [], closed = False\<rparr> ! 0 = 5 \<and>
       rx \<lparr>rx = [4, 1, 0, 1, 9], seg = 0, tx = [], wr_ok = [], closed = False\<rparr> ! 1 = 1)) \<and>
   readAddr \<lparr>rx = [4, 1, 0, 1, 9], seg = 0, tx = [], wr_ok = [], closed = False\<rparr> =
     (Inl (Errorf ''invalid request''),
      \<lparr>rx = [9], seg = 0, tx = [], wr_ok = [], closed = False\<rparr>) \<and>
   fst (readAddr \<lparr>rx = [5, 1, 0, 3, 1, 97, 1, 187], seg = 0, tx = [], wr_ok = [],
                 closed = False\<rparr>) =
     Inr \<lparr>Atyp = 3, AddrBytes = [97], Port = 443\<rparr> \<and>
   Atyp \<lparr>Atyp = 3, AddrBytes = [97], Port = 443\<rparr> = [5, 1, 0, 3, 1, 97, 1, 187] ! 3"
  using
    readAddr_header [of "\<lparr>rx = [4, 1, 0, 1, 9], seg = 0, tx = [], wr_ok = [], closed = False\<rparr>"
                        "\<lparr>Atyp = 3, AddrBytes = [97], Port = 443\<rparr>"]
    readAddr_header [of "\<lparr>rx = [5, 1, 0, 3, 1, 97, 1, 187], seg = 0, tx = [], wr_ok = [],
                          closed = False\<rparr>"
                        "\<lparr>Atyp = 3, AddrBytes = [97], Port = 443\<rparr>"]
  by (simp add: readAddr_def readAddrBody_def ReadFull_def Uint16_def)

section \<open>The request sent to the upstream proxy\<close>

text \<open>
  For the two fixed-length address types the request built by \<open>dialThroughSocks\<close> is
  read back by \<open>readAddr\<close> as the address it was built from, whatever follows it on the
  stream.
\<close>

lemma PutUint16_two:
  "ReadFull (c\<lparr>rx := PutUint16 p @ ys\<rparr>) 2 = (Inr (PutUint16 p), c\<lparr>rx := ys\<rparr>)"
  by (rule ReadFull_append) (simp add: PutUint16_def)

lemma connect_roundtrip_ip:
  assumes "Atyp a = 1 \<and> length (AddrBytes a) = 4 \<or> Atyp a = 4 \<and> length (AddrBytes a) = 16"
  shows "readAddr (c\<lparr>rx := connect_request a @ rest\<rparr>) = (Inr a, c\<lparr>rx := rest\<rparr>)"
proof -
  have h: "ReadFull (c\<lparr>rx := connect_request a @ rest\<rparr>) 4 =
       (Inr [5, 1, 0, Atyp a], c\<lparr>rx := AddrBytes a @ PutUint16 (Port a) @ rest\<rparr>)"
    using ReadFull_append [where xs = "[5, 1, 0, Atyp a]" and n = 4 and c = c
                             and ys = "AddrBytes a @ PutUint16 (Port a) @ rest"]
    by (simp add: connect_request_def)
  have b: "readAddrBody (Atyp a) (c\<lparr>rx := AddrBytes a @ PutUint16 (Port a) @ rest\<rparr>) =
       (Inr (AddrBytes a), c\<lparr>rx := PutUint16 (Port a) @ rest\<rparr>)"
    using assms ReadFull_append [where xs = "AddrBytes a" and c = c
                                   and ys = "PutUint16 (Port a) @ rest"]
    by (auto simp add: readAddrBody_def)
  show ?thesis
    by (simp add: readAddr_def h b PutUint16_two Uint16_PutUint16)
qed

text \<open>
  Claim C1 asks for the same of domain names. The request carries the domain bytes
  without the length byte that \<open>readAddr\<close> expects in front of them, so \<open>readAddr\<close>
  takes the first character of the name for the length. For the name \<open>ab\<close> and port 80
  the request is \<open>{5, 1, 0, 3, 97, 98, 0, 80}\<close>; \<open>readAddr\<close> asks for 97 bytes where 3
  are left and fails with \<open>ErrUnexpectedEOF\<close>.
\<close>

theorem connect_roundtrip_domain_fails:
  "readAddr (c\<lparr>rx := connect_request \<lparr>Atyp = 3, AddrBytes = [97, 98], Port = 80\<rparr>\<rparr>) =
     (Inl ErrUnexpectedEOF, c\<lparr>rx := []\<rparr>)"
  by (simp add: readAddr_def readAddrBody_def ReadFull_def connect_request_def PutUint16_def)

text \<open>
  No domain name is read back: a request that \<open>readAddr\<close> accepts as a domain name is 7
  bytes longer than the name it yields, and the request built for a name is only 6 bytes
  longer than that name.
\<close>

lemma readAddrBody_domain_length:
  assumes "readAddrBody 3 c = (Inr bs, c')"
  shows "length (rx c) = 1 + length bs + length (rx c')"
proof -
  from assms obtain lenByte c1 where
    1: "ReadFull c 1 = (Inr lenByte, c1)" and 2: "ReadFull c1 (unat (lenByte ! 0)) = (Inr bs, c')"
    by (auto simp add: readAddrBody_def split: prod.splits sum.splits)
  from ReadFull_Inr [OF 1] ReadFull_Inr [OF 2] show ?thesis by simp
qed

lemma readAddr_domain_length:
  assumes "readAddr c = (Inr a, c')" and "Atyp a = 3"
  shows "length (rx c) = 7 + length (AddrBytes a) + length (rx c')"
proof -
  from assms(1) obtain header c1 c2 portBuf where
    1: "ReadFull c 4 = (Inr header, c1)" and
    2: "readAddrBody (header ! 3) c1 = (Inr (AddrBytes a), c2)" and
    3: "ReadFull c2 2 = (Inr portBuf, c')" and
    4: "Atyp a = header ! 3"
    by (auto simp add: readAddr_def split: prod.splits sum.splits if_splits)
  from 2 4 assms(2) have "readAddrBody 3 c1 = (Inr (AddrBytes a), c2)" by simp
  from readAddrBody_domain_length [OF this] ReadFull_Inr [OF 1] ReadFull_Inr [OF 3]
  show ?thesis by simp
qed

lemma connect_roundtrip_domain_never:
  assumes "Atyp a = 3"
  shows "fst (readAddr (c\<lparr>rx := connect_request a\<rparr>)) \<noteq> Inr a"
proof
  assume eq: "fst (readAddr (c\<lparr>rx := connect_request a\<rparr>)) = Inr a"
  then obtain c' where "readAddr (c\<lparr>rx := connect_request a\<rparr>) = (Inr a, c')"
    by (cases "readAddr (c\<lparr>rx := connect_request a\<rparr>)") simp
  from readAddr_domain_length [OF this assms]
  show False by (simp add: connect_request_def PutUint16_def)
qed

text \<open>
  Claim C2 asks that the request for a domain name carry a length byte before the name.
  With an upstream that accepts the handshake and answers the request, the two buffers
  \<open>dialThroughSocks\<close> writes for the name \<open>ab\<close> and port 80 are \<open>{5, 1, 0}\<close> and
  \<open>{5, 1, 0, 3, 97, 98, 0, 80}\<close>: the name follows the address type directly, where the
  claim has \<open>{5, 1, 0, 3, 2, 97, 98, 0, 80}\<close>.
\<close>

theorem connect_request_domain_no_length:
  "snd (dialThroughSocks
     (env\<lparr>Dial := (\<lambda>addr. Inr \<lparr>rx = [5, 0, 5, 0, 0, 1, 0, 0, 0, 0, 0, 0], seg = 2, tx = [],
                           wr_ok = [], closed = False\<rparr>)\<rparr>)
     upstream \<lparr>Atyp = 3, AddrBytes = [97, 98], Port = 80\<rparr>) =
   Some \<lparr>rx = [], seg = 2, tx = [[5, 1, 0], [5, 1, 0, 3, 97, 98, 0, 80]], wr_ok = [],
         closed = False\<rparr>"
  by (simp add: dialThroughSocks_def conn_Write_def ReadFull_def PutUint16_def
        connect_request_def replyAddrLen_def)

section \<open>Direct connections\<close>








text \<open>
  Claim C4 asks that an IPv4 or IPv6 destination be dialled as it is. \<open>handleClient\<close>
  hands the raw address bytes of every request to the resolver as a host name and dials
  what comes back. A client asks for 93.184.216.34, port 80; the four bytes are no host
  name, the resolver reports an error and no address; the host stays empty and the
  address given to \<open>net.Dial\<close> is \<open>:80\<close>, not \<open>93.184.216.34:80\<close>.
\<close>

theorem direct_ipv4_goes_to_resolver:
  "dialled (handleClient
      (env\<lparr>LookupIP := (\<lambda>host. ([], Some NetError)), Dial := (\<lambda>addr. Inl NetError)\<rparr>)
      \<lparr>rx = [5, 1, 0, 5, 1, 0, 1, 93, 184, 216, 34, 0, 80], seg = 3, tx = [], wr_ok = [],
       closed = False\<rparr> []) = Some '':80''"
  by (simp add: handleClient_def handleHandshake_def conn_Read_def slice_def conn_Write_def
      readAddr_def readAddrBody_def ReadFull_def Uint16_def chooseIP_def JoinHostPort_def
      Itoa.simps Let_def)

section \<open>Failures of the upstream setup\<close>

lemma dialThroughSocks_Inl_closed:
  assumes "dialThroughSocks env upstream dest = (Inl e, u)"
  shows "(u = None \<and> Dial env upstream = Inl e) \<or>
         (\<exists>c0 c. Dial env upstream = Inr c0 \<and> u = Some c \<and> closed c)"
  using assms
  by (auto simp add: dialThroughSocks_def conn_Close_def
           split: sum.splits prod.splits option.splits if_splits)

lemma dialThroughSocks_Inr_iff:
  "(dialThroughSocks env upstream dest = (Inr (), u)) =
   (\<exists>conn conn1 conn2 conn3 reply conn4 addrLen conn5 addrBuf conn6.
      Dial env upstream = Inr conn \<and>
      conn_Write conn [5, 1, 0] = (None, conn1) \<and>
      ReadFull conn1 2 = (Inr [5, 0], conn2) \<and>
      conn_Write conn2 (connect_request dest) = (None, conn3) \<and>
      ReadFull conn3 4 = (Inr reply, conn4) \<and>
      reply ! 1 = 0 \<and>
      replyAddrLen (reply ! 3) conn4 = (Inr addrLen, conn5) \<and>
      ReadFull conn5 (addrLen + 2) = (Inr addrBuf, conn6) \<and>
      u = Some conn6)"
proof
  assume "dialThroughSocks env upstream dest = (Inr (), u)"
  then obtain conn conn1 resp conn2 conn3 reply conn4 addrLen conn5 addrBuf conn6 where
    s: "Dial env upstream = Inr conn" "conn_Write conn [5, 1, 0] = (None, conn1)"
       "ReadFull conn1 2 = (Inr resp, conn2)" "resp ! 0 = 5" "resp ! 1 = 0"
       "conn_Write conn2 (connect_request dest) = (None, conn3)"
       "ReadFull conn3 4 = (Inr reply, conn4)" "reply ! 1 = 0"
       "replyAddrLen (reply ! 3) conn4 = (Inr addrLen, conn5)"
       "ReadFull conn5 (addrLen + 2) = (Inr addrBuf, conn6)" "u = Some conn6"
    by (auto simp add: dialThroughSocks_def
             split: sum.splits prod.splits option.splits if_splits)
  from ReadFull_Inr [OF s(3)] s(4,5) have "resp = [5, 0]"
    by (simp add: two_bytes)
  with s show "\<exists>conn conn1 conn2 conn3 reply conn4 addrLen conn5 addrBuf conn6.
      Dial env upstream = Inr conn \<and>
      conn_Write conn [5, 1, 0] = (None, conn1) \<and>
      ReadFull conn1 2 = (Inr [5, 0], conn2) \<and>
      conn_Write conn2 (connect_request dest) = (None, conn3) \<and>
      ReadFull conn3 4 = (Inr reply, conn4) \<and>
      reply ! 1 = 0 \<and>
      replyAddrLen (reply ! 3) conn4 = (Inr addrLen, conn5) \<and>
      ReadFull conn5 (addrLen + 2) = (Inr addrBuf, conn6) \<and>
      u = Some conn6"
    by blast
next
  assume "\<exists>conn conn1 conn2 conn3 reply conn4 addrLen conn5 addrBuf conn6.
      Dial env upstream = Inr conn \<and>
      conn_Write conn [5, 1, 0] = (None, conn1) \<and>
      ReadFull conn1 2 = (Inr [5, 0], conn2) \<and>
      conn_Write conn2 (connect_request dest) = (None, conn3) \<and>
      ReadFull conn3 4 = (Inr reply, conn4) \<and>
      reply ! 1 = 0 \<and>
      replyAddrLen (reply ! 3) conn4 = (Inr addrLen, conn5) \<and>
      ReadFull conn5 (addrLen + 2) = (Inr addrBuf, conn6) \<and>
      u = Some conn6"
  then show "dialThroughSocks env upstream dest = (Inr (), u)"
    by (auto simp add: dialThroughSocks_def)
qed

text \<open>
  The switch over the address type of the reply gives a length for the types 1, 3 and 4
  only, and for type 3 only after the length byte has been read.
\<close>

lemma replyAddrLen_Inr_iff:
  "(replyAddrLen atyp c = (Inr addrLen, c')) =
   (atyp = 1 \<and> addrLen = 4 \<and> c' = c \<or>
    atyp = 3 \<and> (\<exists>lenByte. ReadFull c 1 = (Inr lenByte, c') \<and> addrLen = unat (lenByte ! 0)) \<or>
    atyp = 4 \<and> addrLen = 16 \<and> c' = c)"
  by (auto simp add: replyAddrLen_def split: prod.splits sum.splits)

lemma handleClient_upstream_failure:
  assumes "upstream \<noteq> []" and "handleHandshake client = (Returns None, c1)"
    and "readAddr c1 = (Inr dest, c2)" and "dialThroughSocks env upstream dest = (Inl e, u)"
  shows "handleClient env client upstream =
           \<lparr>client_end = conn_Close (snd (writeReply c2 5)), dest_end = u,
            dialled = Some upstream, relayed = False, panicked = False\<rparr>"
  using assms by (simp add: handleClient_def Let_def)

text \<open>
  Claim C9. \<open>dialThroughSocks\<close> hands a connection to its caller exactly when every step
  went through: the dial; the handshake write; the 2-byte response, read in full and
  equal to \<open>{0x05, 0x00}\<close>; the write of the CONNECT request; the 4-byte reply, read in
  full, with status byte 0 and with address type 1, 3 or 4 (bound address of 4 bytes, of
  as many bytes as the length byte read next says, or of 16 bytes); and the read of that
  address and the 2 port bytes. In every other case (a failed dial, write or read, another
  response, a nonzero status, another address type in the reply, a reply cut short) it
  returns an error and no connection, and the socket is either not there (the dial
  failed) or closed. When that happens in a session that has an upstream and got past the
  handshake and the request, \<open>handleClient\<close> hands the reply
  \<open>{0x05, 0x05, 0x00, 0x01, 0,0,0,0, 0,0}\<close> to the client, starts no relay, and ends with
  the client connection closed.
\<close>

theorem upstream_failure:
  assumes "dialThroughSocks env upstream dest = (r, u)"
  shows
    "(r = Inr ()) =
       (\<exists>conn conn1 conn2 conn3 reply conn4 addrLen conn5 addrBuf conn6.
          Dial env upstream = Inr conn \<and>
          conn_Write conn [5, 1, 0] = (None, conn1) \<and>
          ReadFull conn1 2 = (Inr [5, 0], conn2) \<and>
          conn_Write conn2 (connect_request dest) = (None, conn3) \<and>
          ReadFull conn3 4 = (Inr reply, conn4) \<and>
          reply ! 1 = 0 \<and>
          (reply ! 3 = 1 \<and> addrLen = 4 \<and> conn5 = conn4 \<or>
           reply ! 3 = 3 \<and>
             (\<exists>lenByte. ReadFull conn4 1 = (Inr lenByte, conn5) \<and>
                        addrLen = unat (lenByte ! 0)) \<or>
           reply ! 3 = 4 \<and> addrLen = 16 \<and> conn5 = conn4) \<and>
          ReadFull conn5 (addrLen + 2) = (Inr addrBuf, conn6) \<and>
          u = Some conn6) \<and>
     (r \<noteq> Inr () \<longrightarrow>
        (\<exists>e. r = Inl e \<and>
           (u = None \<and> Dial env upstream = Inl e \<or>
            (\<exists>conn c. Dial env upstream = Inr conn \<and> u = Some c \<and> closed c)))) \<and>
     (r \<noteq> Inr () \<and> upstream \<noteq> [] \<and> handleHandshake client = (Returns None, c1) \<and>
      readAddr c1 = (Inr dest, c2) \<longrightarrow>
        relayed (handleClient env client upstream) = False \<and>
        panicked (handleClient env client upstream) = False \<and>
        tx (client_end (handleClient env client upstream)) =
          tx c2 @ [[5, 5, 0, 1, 0, 0, 0, 0, 0, 0]] \<and>
        closed (client_end (handleClient env client upstream)) \<and>
        dest_end (handleClient env client upstream) = u)"
proof (intro conjI impI)
  show "(r = Inr ()) =
       (\<exists>conn conn1 conn2 conn3 reply conn4 addrLen conn5 addrBuf conn6.
          Dial env upstream = Inr conn \<and>
          conn_Write conn [5, 1, 0] = (None, conn1) \<and>
          ReadFull conn1 2 = (Inr [5, 0], conn2) \<and>
          conn_Write conn2 (connect_request dest) = (None, conn3) \<and>
          ReadFull conn3 4 = (Inr reply, conn4) \<and>
          reply ! 1 = 0 \<and>
          (reply ! 3 = 1 \<and> addrLen = 4 \<and> conn5 = conn4 \<or>
           reply ! 3 = 3 \<and>
             (\<exists>lenByte. ReadFull conn4 1 = (Inr lenByte, conn5) \<and>
                        addrLen = unat (lenByte ! 0)) \<or>
           reply ! 3 = 4 \<and> addrLen = 16 \<and> conn5 = conn4) \<and>
          ReadFull conn5 (addrLen + 2) = (Inr addrBuf, conn6) \<and>
          u = Some conn6)"
    using assms dialThroughSocks_Inr_iff [of env upstream dest u]
    unfolding replyAddrLen_Inr_iff by auto
next
  assume "r \<noteq> Inr ()"
  then obtain e where e: "r = Inl e" by (cases r) auto
  with assms dialThroughSocks_Inl_closed [of env upstream dest e u]
  show "\<exists>e. r = Inl e \<and>
           (u = None \<and> Dial env upstream = Inl e \<or>
            (\<exists>conn c. Dial env upstream = Inr conn \<and> u = Some c \<and> closed c))"
    by simp
next
  assume a: "r \<noteq> Inr () \<and> upstream \<noteq> [] \<and> handleHandshake client = (Returns None, c1) \<and>
      readAddr c1 = (Inr dest, c2)"
  then obtain e where e: "r = Inl e" by (cases r) auto
  with a assms have s: "handleClient env client upstream =
           \<lparr>client_end = conn_Close (snd (writeReply c2 5)), dest_end = u,
            dialled = Some upstream, relayed = False, panicked = False\<rparr>"
    by (simp add: handleClient_upstream_failure)
  show "relayed (handleClient env client upstream) = False"
    "panicked (handleClient env client upstream) = False"
    "dest_end (handleClient env client upstream) = u"
    "closed (client_end (handleClient env client upstream))"
    by (simp_all add: s conn_Close_def)
  show "tx (client_end (handleClient env client upstream)) =
          tx c2 @ [[5, 5, 0, 1, 0, 0, 0, 0, 0, 0]]"
    by (simp add: s conn_Close_def writeReply_def conn_Write_def split: list.splits)
qed

theorem upstream_failure_witness:
  "''127.0.0.1:1080'' \<noteq> [] \<and>
   handleHandshake \<lparr>rx = [5, 1, 0, 5, 1, 0, 3, 1, 97, 0, 80], seg = 3, tx = [], wr_ok = [], closed = False\<rparr> =
     (Returns None,
      \<lparr>rx = [5, 1, 0, 3, 1, 97, 0, 80], seg = 3, tx = [[5, 0]], wr_ok = [], closed = False\<rparr>) \<and>
   readAddr \<lparr>rx = [5, 1, 0, 3, 1, 97, 0, 80], seg = 3, tx = [[5, 0]], wr_ok = [], closed = False\<rparr> =
     (Inr \<lparr>Atyp = 3, AddrBytes = [97], Port = 80\<rparr>,
      \<lparr>rx = [], seg = 3, tx = [[5, 0]], wr_ok = [], closed = False\<rparr>) \<and>
   dialThroughSocks
     \<lparr>LookupIP = (\<lambda>host. ([], Some NetError)),
      Dial = (\<lambda>addr. Inr \<lparr>rx = [5, 0, 5, 1, 0, 1, 0, 0, 0, 0, 0, 0], seg = 2, tx = [],
                           wr_ok = [], closed = False\<rparr>),
      String16 = (\<lambda>ip. [])\<rparr>
     ''127.0.0.1:1080'' \<lparr>Atyp = 3, AddrBytes = [97], Port = 80\<rparr> =
     (Inl (Errorf ''upstream request failed: 1''),
      Some \<lparr>rx = [0, 0, 0, 0, 0, 0], seg = 2, tx = [[5, 1, 0], [5, 1, 0, 3, 97, 0, 80]],
            wr_ok = [], closed = True\<rparr>) \<and>
   Inl (Errorf ''upstream request failed: 1'') \<noteq> (Inr () :: error + unit) \<and>
   relayed (handleClient
     \<lparr>LookupIP = (\<lambda>host. ([], Some NetError)),
      Dial = (\<lambda>addr. Inr \<lparr>rx = [5, 0, 5, 1, 0, 1, 0, 0, 0, 0, 0, 0], seg = 2, tx = [],
                           wr_ok = [], closed = False\<rparr>),
      String16 = (\<lambda>ip. [])\<rparr>
     \<lparr>rx = [5, 1, 0, 5, 1, 0, 3, 1, 97, 0, 80], seg = 3, tx = [], wr_ok = [], closed = False\<rparr>
     ''127.0.0.1:1080'') = False \<and>
   tx (client_end (handleClient
     \<lparr>LookupIP = (\<lambda>host. ([], Some NetError)),
      Dial = (\<lambda>addr. Inr \<lparr>rx = [5, 0, 5, 1, 0, 1, 0, 0, 0, 0, 0, 0], seg = 2, tx = [],
                           wr_ok = [], closed = False\<rparr>),
      String16 = (\<lambda>ip. [])\<rparr>
     \<lparr>rx = [5, 1, 0, 5, 1, 0, 3, 1, 97, 0, 80], seg = 3, tx = [], wr_ok = [], closed = False\<rparr>
     ''127.0.0.1:1080'')) = [[5, 0], [5, 5, 0, 1, 0, 0, 0, 0, 0, 0]] \<and>
   closed (client_end (handleClient
     \<lparr>LookupIP = (\<lambda>host. ([], Some NetError)),
      Dial = (\<lambda>addr. Inr \<lparr>rx = [5, 0, 5, 1, 0, 1, 0, 0, 0, 0, 0, 0], seg = 2, tx = [],
                           wr_ok = [], closed = False\<rparr>),
      String16 = (\<lambda>ip. [])\<rparr>
     \<lparr>rx = [5, 1, 0, 5, 1, 0, 3, 1, 97, 0, 80], seg = 3, tx = [], wr_ok = [], closed = False\<rparr>
     ''127.0.0.1:1080'')) \<and>
   dialThroughSocks
     \<lparr>LookupIP = (\<lambda>host. ([], Some NetError)),
      Dial = (\<lambda>addr. Inr \<lparr>rx = [5, 0, 5, 0, 0, 2, 0, 0, 0, 0, 0, 0], seg = 2, tx = [],
                           wr_ok = [], closed = False\<rparr>),
      String16 = (\<lambda>ip. [])\<rparr>
     ''127.0.0.1:1080'' \<lparr>Atyp = 3, AddrBytes = [97], Port = 80\<rparr> =
     (Inl (Errorf ''unsupported address type in reply''),
      Some \<lparr>rx = [0, 0, 0, 0, 0, 0], seg = 2, tx = [[5, 1, 0], [5, 1, 0, 3, 97, 0, 80]],
            wr_ok = [], closed = True\<rparr>) \<and>
   Inl (Errorf ''unsupported address type in reply'') \<noteq> (Inr () :: error + unit) \<and>
   relayed (handleClient
     \<lparr>LookupIP = (\<lambda>host. ([], Some NetError)),
      Dial = (\<lambda>addr. Inr \<lparr>rx = [5, 0, 5, 0, 0, 2, 0, 0, 0, 0, 0, 0], seg = 2, tx = [],
                           wr_ok = [], closed = False\<rparr>),
      String16 = (\<lambda>ip. [])\<rparr>
     \<lparr>rx = [5, 1, 0, 5, 1, 0, 3, 1, 97, 0, 80], seg = 3, tx = [], wr_ok = [], closed = False\<rparr>
     ''127.0.0.1:1080'') = False \<and>
   tx (client_end (handleClient
     \<lparr>LookupIP = (\<lambda>host. ([], Some NetError)),
      Dial = (\<lambda>addr. Inr \<lparr>rx = [5, 0, 5, 0, 0, 2, 0, 0, 0, 0, 0, 0], seg = 2, tx = [],
                           wr_ok = [], closed = False\<rparr>),
      String16 = (\<lambda>ip. [])\<rparr>
     \<lparr>rx = [5, 1, 0, 5, 1, 0, 3, 1, 97, 0, 80], seg = 3, tx = [], wr_ok = [], closed = False\<rparr>
     ''127.0.0.1:1080'')) = [[5, 0], [5, 5, 0, 1, 0, 0, 0, 0, 0, 0]] \<and>
   closed (client_end (handleClient
     \<lparr>LookupIP = (\<lambda>host. ([], Some NetError)),
      Dial = (\<lambda>addr. Inr \<lparr>rx = [5, 0, 5, 0, 0, 2, 0, 0, 0, 0, 0, 0], seg = 2, tx = [],
                           wr_ok = [], closed = False\<rparr>),
      String16 = (\<lambda>ip. [])\<rparr>
     \<lparr>rx = [5, 1, 0, 5, 1, 0, 3, 1, 97, 0, 80], seg = 3, tx = [], wr_ok = [], closed = False\<rparr>
     ''127.0.0.1:1080''))"
  using
    upstream_failure
    [of "\<lparr>LookupIP = (\<lambda>host. ([], Some NetError)),
      Dial = (\<lambda>addr. Inr \<lparr>rx = [5, 0, 5, 1, 0, 1, 0, 0, 0, 0, 0, 0], seg = 2, tx = [],
                           wr_ok = [], closed = False\<rparr>),
      String16 = (\<lambda>ip. [])\<rparr>"
        "''127.0.0.1:1080''" "\<lparr>Atyp = 3, AddrBytes = [97], Port = 80\<rparr>"
        "Inl (Errorf ''upstream request failed: 1'')"
        "Some \<lparr>rx = [0, 0, 0, 0, 0, 0], seg = 2, tx = [[5, 1, 0], [5, 1, 0, 3, 97, 0, 80]],
            wr_ok = [], closed = True\<rparr>"
        "\<lparr>rx = [5, 1, 0, 5, 1, 0, 3, 1, 97, 0, 80], seg = 3, tx = [], wr_ok = [], closed = False\<rparr>"
        "\<lparr>rx = [5, 1, 0, 3, 1, 97, 0, 80], seg = 3, tx = [[5, 0]], wr_ok = [], closed = False\<rparr>"
        "\<lparr>rx = [], seg = 3, tx = [[5, 0]], wr_ok = [], closed = False\<rparr>"]
    upstream_failure
    [of "\<lparr>LookupIP = (\<lambda>host. ([], Some NetError)),
      Dial = (\<lambda>addr. Inr \<lparr>rx = [5, 0, 5, 0, 0, 2, 0, 0, 0, 0, 0, 0], seg = 2, tx = [],
                           wr_ok = [], closed = False\<rparr>),
      String16 = (\<lambda>ip. [])\<rparr>"
        "''127.0.0.1:1080''" "\<lparr>Atyp = 3, AddrBytes = [97], Port = 80\<rparr>"
        "Inl (Errorf ''unsupported address type in reply'')"
        "Some \<lparr>rx = [0, 0, 0, 0, 0, 0], seg = 2, tx = [[5, 1, 0], [5, 1, 0, 3, 97, 0, 80]],
            wr_ok = [], closed = True\<rparr>"
        "\<lparr>rx = [5, 1, 0, 5, 1, 0, 3, 1, 97, 0, 80], seg = 3, tx = [], wr_ok = [], closed = False\<rparr>"
        "\<lparr>rx = [5, 1, 0, 3, 1, 97, 0, 80], seg = 3, tx = [[5, 0]], wr_ok = [], closed = False\<rparr>"
        "\<lparr>rx = [], seg = 3, tx = [[5, 0]], wr_ok = [], closed = False\<rparr>"]
  by (simp add: dialThroughSocks_def handleHandshake_def conn_Read_def slice_def conn_Write_def
      readAddr_def readAddrBody_def ReadFull_def Uint16_def PutUint16_def connect_request_def
      replyAddrLen_def conn_Close_def Itoa.simps)

end
